theory Spec2Isabelle
  imports Complex_Main
begin

section \<open>Electron density of the hydrogen molecule from two 1s Slater orbitals\<close>

text \<open>
  The notebook \<^verbatim>\<open>h2_1s_density.ipynb\<close> defines a module constant \<^verbatim>\<open>alpha\<close>, the
  helpers \<^verbatim>\<open>distance\<close> and \<^verbatim>\<open>S\<close>, and the function \<^verbatim>\<open>plot_func(R)\<close> that computes
  the 2D density \<^verbatim>\<open>Z\<close> on a 100 x 100 grid and the 1D cut \<^verbatim>\<open>density_1d\<close>.

  Conventions of the embedding:
  \<^item> Python floats and numpy float arrays are modelled by \<^typ>\<open>real\<close> and lists of reals:
    rounding, underflow, infinities and NaN are idealised away.
  \<^item> The module constant \<^verbatim>\<open>alpha\<close> that \<^verbatim>\<open>S\<close> and \<^verbatim>\<open>plot_func\<close> read is an explicit first
    argument; the coordinate arrays \<^verbatim>\<open>x\<close> and \<^verbatim>\<open>y\<close> that \<^verbatim>\<open>plot_func\<close> builds are arguments
    of the two array computations, and \<open>plot_func\<close> below supplies the source's values.
  \<^item> A Python call returns or raises: results are \<open>error + 'a\<close>. Two operations of the
    source raise: \<^verbatim>\<open>math.exp\<close> in \<^verbatim>\<open>S\<close>, with OverflowError when its result is beyond the
    range of a double, and the float division by \<^verbatim>\<open>math.pi * (1 + S(R))\<close>, with
    ZeroDivisionError on a zero divisor. The numpy operations do not raise. The power
    \<^verbatim>\<open>alpha**3\<close> is taken of the module constant 1.24 and is in range.
\<close>

subsection \<open>numpy arrays and the operations the notebook uses\<close>

type_synonym array1 = "real list"
type_synonym array2 = "real list list"

text \<open>\<^verbatim>\<open>np.linspace(start, stop, num)\<close>: \<open>num\<close> evenly spaced samples, both ends included.\<close>

definition linspace :: "real \<Rightarrow> real \<Rightarrow> nat \<Rightarrow> array1" where
  "linspace start stop num =
     map (\<lambda>i. start + real i * ((stop - start) / real (num - 1))) [0..<num]"

text \<open>\<^verbatim>\<open>X, Y = np.meshgrid(x, y)\<close>: both have one row per element of \<open>y\<close> and one column per
  element of \<open>x\<close>; \<open>X[i][j] = x[j]\<close> and \<open>Y[i][j] = y[i]\<close>.\<close>

definition meshgrid :: "array1 \<Rightarrow> array1 \<Rightarrow> array2 \<times> array2" where
  "meshgrid x y = (map (\<lambda>_. x) y, map (\<lambda>v. map (\<lambda>_. v) x) y)"

text \<open>Elementwise operations: a function over an array, an array with an array.\<close>

definition amap1 :: "(real \<Rightarrow> real) \<Rightarrow> array1 \<Rightarrow> array1" where
  "amap1 f a = map f a"

definition amap2 :: "(real \<Rightarrow> real) \<Rightarrow> array2 \<Rightarrow> array2" where
  "amap2 f A = map (map f) A"

definition azip1 :: "(real \<Rightarrow> real \<Rightarrow> real) \<Rightarrow> array1 \<Rightarrow> array1 \<Rightarrow> array1" where
  "azip1 f a b = map2 f a b"

definition azip2 :: "(real \<Rightarrow> real \<Rightarrow> real) \<Rightarrow> array2 \<Rightarrow> array2 \<Rightarrow> array2" where
  "azip2 f A B = map2 (map2 f) A B"

subsection \<open>The module constant and the two helpers\<close>

text \<open>\<^verbatim>\<open>alpha = 1.24\<close>\<close>

definition alpha :: real where
  "alpha = 124 / 100"

text \<open>\<^verbatim>\<open>def distance(x, y): return np.sqrt(x ** 2 + y ** 2)\<close>, on scalars; the notebook calls
  it on two 2D arrays and on a 1D array with the scalar 0, where numpy applies it
  elementwise.\<close>

definition distance :: "real \<Rightarrow> real \<Rightarrow> real" where
  "distance x y = sqrt (x ^ 2 + y ^ 2)"

definition distance_2d :: "array2 \<Rightarrow> array2 \<Rightarrow> array2" where
  "distance_2d A B = azip2 distance A B"

definition distance_1d :: "array1 \<Rightarrow> real \<Rightarrow> array1" where
  "distance_1d a c = amap1 (\<lambda>v. distance v c) a"

text \<open>\<open>OverflowError\<close> and \<open>ZeroDivisionError\<close> are the exceptions the source's operations
  raise. \<open>InvalidParameter\<close> is the error the specification names; no statement of the
  source raises it.\<close>

datatype error = ZeroDivisionError | OverflowError | InvalidParameter

text \<open>\<^verbatim>\<open>math.exp(z)\<close> raises OverflowError when the result does not fit a double. The
  doubles end just below \<open>2^1024\<close>.\<close>

definition double_range :: real where
  "double_range = 2 ^ 1024"

definition math_exp :: "real \<Rightarrow> error + real" where
  "math_exp z = (if double_range \<le> exp z then Inl OverflowError else Inr (exp z))"

text \<open>
  \<^verbatim>\<open>def S(R): w = alpha * R; w2 = w * w; return math.exp(-w) * (1 + w + w2 / 3)\<close>
\<close>

definition S :: "real \<Rightarrow> real \<Rightarrow> error + real" where
  "S a R =
     (let w = a * R; w2 = w * w
      in case math_exp (- w) of
           Inl e \<Rightarrow> Inl e
         | Inr v \<Rightarrow> Inr (v * (1 + w + w2 / 3)))"

subsection \<open>The two array computations of \<^verbatim>\<open>plot_func\<close>\<close>

text \<open>
  The 2D density:
  \<^verbatim>\<open>
  X, Y = np.meshgrid(x, y)
  ra = distance(X - R / 2, Y)
  rb = distance(X + R / 2, Y)
  Z = (alpha**3 / (math.pi * (1 + S(R)))) * (np.exp(-alpha * ra) + np.exp(-alpha * rb)) ** 2
  \<close>
\<close>

definition evaluate2D :: "real \<Rightarrow> real \<Rightarrow> array1 \<Rightarrow> array1 \<Rightarrow> error + array2" where
  "evaluate2D a R x y =
     (let (X, Y) = meshgrid x y;
          ra = distance_2d (amap2 (\<lambda>v. v - R / 2) X) Y;
          rb = distance_2d (amap2 (\<lambda>v. v + R / 2) X) Y
      in case S a R of
           Inl e \<Rightarrow> Inl e
         | Inr s \<Rightarrow>
             (let den = pi * (1 + s)
              in if den = 0 then Inl ZeroDivisionError
                 else Inr (amap2 (\<lambda>v. (a ^ 3 / den) * v)
                        (amap2 (\<lambda>v. v ^ 2)
                          (azip2 (+) (amap2 exp (amap2 (\<lambda>v. (- a) * v) ra))
                                     (amap2 exp (amap2 (\<lambda>v. (- a) * v) rb)))))))"

text \<open>
  The 1D cut along the x axis:
  \<^verbatim>\<open>
  ra_1d = distance(x - R / 2, 0)
  rb_1d = distance(x + R / 2, 0)
  density_1d = (np.exp(-alpha * ra_1d) + np.exp(-alpha * rb_1d)) ** 2
  \<close>
\<close>

definition evaluate1D :: "real \<Rightarrow> real \<Rightarrow> array1 \<Rightarrow> error + array1" where
  "evaluate1D a R x =
     (let ra_1d = distance_1d (amap1 (\<lambda>v. v - R / 2) x) 0;
          rb_1d = distance_1d (amap1 (\<lambda>v. v + R / 2) x) 0
      in Inr (amap1 (\<lambda>v. v ^ 2)
           (azip1 (+) (amap1 exp (amap1 (\<lambda>v. (- a) * v) ra_1d))
                      (amap1 exp (amap1 (\<lambda>v. (- a) * v) rb_1d)))))"

text \<open>
  \<^verbatim>\<open>plot_func(R)\<close> with \<^verbatim>\<open>d = 2.0\<close>, \<^verbatim>\<open>x = np.linspace(-d, d, 100)\<close>,
  \<^verbatim>\<open>y = np.linspace(-d, d, 100)\<close>: the two arrays it draws. The drawing itself is not
  modelled.
\<close>

definition plot_func :: "real \<Rightarrow> error + (array2 \<times> array1)" where
  "plot_func R =
     (let d = 2;
          x = linspace (- d) d 100;
          y = linspace (- d) d 100
      in case evaluate2D alpha R x y of
           Inl e \<Rightarrow> Inl e
         | Inr Z \<Rightarrow> (case evaluate1D alpha R x of
                       Inl e \<Rightarrow> Inl e
                     | Inr density_1d \<Rightarrow> Inr (Z, density_1d)))"

subsection \<open>Vocabulary of the properties\<close>

text \<open>An interior index \<open>k\<close> of a sequence is a local maximum when the value there is at
  least both neighbours, and a local minimum when it is at most both neighbours.\<close>

definition local_max :: "real list \<Rightarrow> nat \<Rightarrow> bool" where
  "local_max v k \<longleftrightarrow> 0 < k \<and> k + 1 < length v \<and> v ! (k - 1) \<le> v ! k \<and> v ! (k + 1) \<le> v ! k"

definition local_min :: "real list \<Rightarrow> nat \<Rightarrow> bool" where
  "local_min v k \<longleftrightarrow> 0 < k \<and> k + 1 < length v \<and> v ! k \<le> v ! (k - 1) \<and> v ! k \<le> v ! (k + 1)"

text \<open>The amplitude along the x axis, before squaring: the sum of the two orbital
  exponentials at distance \<open>\<bar>v - R / 2\<bar>\<close> and \<open>\<bar>v + R / 2\<bar>\<close> from the nuclei.\<close>

definition amplitude_1d :: "real \<Rightarrow> real \<Rightarrow> real \<Rightarrow> real" where
  "amplitude_1d a R v = exp (- a * \<bar>v - R / 2\<bar>) + exp (- a * \<bar>v + R / 2\<bar>)"

text \<open>The samples of \<^verbatim>\<open>np.linspace(-2, 2, 100)\<close> in closed form, and the squared amplitude
  there for the notebook's \<open>alpha\<close> and \<open>R = 1.4\<close>.\<close>

definition sample :: "nat \<Rightarrow> real" where
  "sample k = - 2 + real k * (4 / 99)"

definition cut :: "nat \<Rightarrow> real" where
  "cut k = (amplitude_1d alpha (14 / 10) (sample k)) ^ 2"

section \<open>Properties\<close>

subsection \<open>When \<open>S\<close> returns and when it raises\<close>

lemma one_less_double_range: "1 < double_range"
  unfolding double_range_def by (rule one_less_power) simp_all

lemma math_exp_nonpos: "z \<le> 0 \<Longrightarrow> math_exp z = Inr (exp z)"
proof -
  assume "z \<le> 0"
  then have "exp z \<le> 1" by simp
  then have "\<not> double_range \<le> exp z" using one_less_double_range by linarith
  then show ?thesis by (simp add: math_exp_def)
qed

lemma S_returns:
  "0 \<le> a * R \<Longrightarrow> S a R = Inr (exp (- (a * R)) * (1 + a * R + a * R * (a * R) / 3))"
  by (simp add: S_def Let_def math_exp_nonpos)

lemma overlap_poly_pos: "0 < 1 + w + w * w / (3::real)"
proof -
  have "1 + w + w * w / 3 = (w + 3 / 2) ^ 2 / 3 + 1 / 4"
    by (simp add: power2_eq_square field_simps)
  also have "0 < (w + 3 / 2) ^ 2 / 3 + 1 / 4"
    by (simp add: add_nonneg_pos)
  finally show ?thesis .
qed

lemma S_cases:
  obtains (overflow) "S a R = Inl OverflowError"
  | (returns) "S a R = Inr (exp (- (a * R)) * (1 + a * R + a * R * (a * R) / 3))"
  by (cases "double_range \<le> exp (- (a * R))") (simp_all add: S_def Let_def math_exp_def)

lemma S_value_pos: "S a R = Inr s \<Longrightarrow> 0 < s"
  by (cases a R rule: S_cases) (auto simp: overlap_poly_pos)

lemma double_range_le_exp_1240: "double_range \<le> exp 1240"
proof -
  have "(2::real) ^ 1024 \<le> 2 ^ 1240"
    by (rule power_increasing) simp_all
  also have "(2::real) ^ 1240 \<le> exp 1 ^ 1240"
    using exp_ge_add_one_self [of 1] by (intro power_mono) simp_all
  also have "exp 1 ^ 1240 = exp (of_nat 1240 * (1::real))"
    by (rule exp_of_nat_mult [symmetric])
  finally show ?thesis by (simp add: double_range_def)
qed

text \<open>For a separation of \<open>- 1000\<close> the exponent is \<open>1240\<close> and \<^verbatim>\<open>math.exp\<close> overflows:
  \<open>S\<close> raises, and so does \<open>plot_func\<close>.\<close>

lemma S_overflow: "S alpha (- 1000) = Inl OverflowError"
  using double_range_le_exp_1240 by (simp add: S_def Let_def math_exp_def alpha_def)

subsection \<open>Shapes and entries of the arrays\<close>

text \<open>Both computations, with the array operations unfolded: one entry per coordinate.\<close>

lemma evaluate1D_eq:
  "evaluate1D a R x =
     Inr (map (\<lambda>v. (exp (- a * \<bar>v - R / 2\<bar>) + exp (- a * \<bar>v + R / 2\<bar>)) ^ 2) x)"
  by (simp add: evaluate1D_def Let_def amap1_def azip1_def distance_1d_def distance_def
        zip_map_map zip_same_conv_map comp_def)

lemma evaluate2D_raises: "S a R = Inl e \<Longrightarrow> evaluate2D a R x y = Inl e"
  by (simp add: evaluate2D_def Let_def meshgrid_def)

lemma evaluate2D_eq:
  assumes "S a R = Inr s"
  shows "evaluate2D a R x y =
     Inr (map (\<lambda>yv. map (\<lambda>xv. (a ^ 3 / (pi * (1 + s))) *
            (exp (- a * sqrt ((xv - R / 2) ^ 2 + yv ^ 2))
             + exp (- a * sqrt ((xv + R / 2) ^ 2 + yv ^ 2))) ^ 2) x) y)"
proof -
  have "1 + s \<noteq> 0" using S_value_pos [OF assms] by simp
  then show ?thesis
    using assms
    by (simp add: evaluate2D_def Let_def amap2_def azip2_def distance_2d_def meshgrid_def
          distance_def zip_map_map zip_same_conv_map comp_def)
qed

lemma plot_func_overflow: "plot_func (- 1000) = Inl OverflowError"
  by (simp add: plot_func_def Let_def evaluate2D_raises [OF S_overflow])

subsection \<open>The normalised 2D density\<close>

text \<open>
  Claim C1. For \<open>alpha > 0\<close>, \<open>R \<ge> 0\<close> and non-empty coordinate ranges, \<open>S\<close> returns a value
  \<open>s\<close> and the 2D computation returns (neither raises); its entry for the grid point
  \<open>(xv, yv)\<close>, in the row of \<open>yv\<close> and the column of \<open>xv\<close>, is
  \<open>alpha^3 / (pi * (1 + s)) * (exp (- alpha * ra) + exp (- alpha * rb))^2\<close>, where \<open>ra\<close> and
  \<open>rb\<close> are the Euclidean distances from \<open>(xv, yv)\<close> to \<open>(- R / 2, 0)\<close> and \<open>(R / 2, 0)\<close>.
\<close>

theorem evaluate2D_normalized_density:
  assumes "0 < a" and "0 \<le> R" and "x \<noteq> []" and "y \<noteq> []"
  shows "\<exists>s. S a R = Inr s \<and> evaluate2D a R x y =
     Inr (map (\<lambda>yv. map (\<lambda>xv. (a ^ 3 / (pi * (1 + s))) *
            (exp (- a * sqrt ((xv - (- R / 2)) ^ 2 + (yv - 0) ^ 2))
             + exp (- a * sqrt ((xv - R / 2) ^ 2 + (yv - 0) ^ 2))) ^ 2) x) y)"
proof -
  have "0 \<le> a * R" using assms by simp
  then obtain s where s: "S a R = Inr s" using S_returns by blast
  show ?thesis
    using s by (simp add: evaluate2D_eq [OF s] add.commute)
qed

theorem evaluate2D_normalized_density_witness:
  "0 < alpha \<and> (0::real) \<le> 14 / 10 \<and> [- 1, 1 :: real] \<noteq> [] \<and> [0, 2 :: real] \<noteq> [] \<and>
   (\<exists>s. S alpha (14 / 10) = Inr s \<and> evaluate2D alpha (14 / 10) [- 1, 1] [0, 2] =
     Inr (map (\<lambda>yv. map (\<lambda>xv. (alpha ^ 3 / (pi * (1 + s))) *
            (exp (- alpha * sqrt ((xv - (- (14 / 10) / 2)) ^ 2 + (yv - 0) ^ 2))
             + exp (- alpha * sqrt ((xv - (14 / 10) / 2) ^ 2 + (yv - 0) ^ 2))) ^ 2)
              [- 1, 1]) [0, 2]))"
proof -
  have "0 < alpha" by (simp add: alpha_def)
  then show ?thesis
    using evaluate2D_normalized_density [of alpha "14 / 10" "[- 1, 1]" "[0, 2]"] by simp
qed

subsection \<open>The unnormalised 1D cut\<close>

text \<open>
  Claim C2. For \<open>alpha > 0\<close>, \<open>R \<ge> 0\<close> and a non-empty range, the 1D computation returns, for
  each \<open>v\<close> of the range, \<open>(exp (- alpha * ra) + exp (- alpha * rb))^2\<close> with
  \<open>ra = \<bar>v - R / 2\<bar>\<close> and \<open>rb = \<bar>v + R / 2\<bar>\<close>, and no normalisation factor.
\<close>

theorem evaluate1D_unnormalized:
  assumes "0 < a" and "0 \<le> R" and "x \<noteq> []"
  shows "evaluate1D a R x =
     Inr (map (\<lambda>v. (exp (- a * \<bar>v - R / 2\<bar>) + exp (- a * \<bar>v + R / 2\<bar>)) ^ 2) x)"
  by (rule evaluate1D_eq)

theorem evaluate1D_unnormalized_witness:
  "(0::real) < 1 \<and> (0::real) \<le> 2 \<and> [1::real, 3] \<noteq> [] \<and>
   evaluate1D 1 2 [1, 3] =
     Inr [(exp (- 1 * \<bar>1 - 2 / 2\<bar>) + exp (- 1 * \<bar>1 + 2 / 2\<bar>)) ^ 2,
          (exp (- 1 * \<bar>3 - 2 / 2\<bar>) + exp (- 1 * \<bar>3 + 2 / 2\<bar>)) ^ 2]"
  using evaluate1D_unnormalized [of 1 2 "[1, 3]"] by simp

subsection \<open>The overlap integral\<close>

text \<open>
  Claim C3, as stated: \<open>S\<close> returns \<open>exp (- w) * (1 + w + (1 / 3)^2)\<close> with \<open>w = alpha * R\<close>.
  It fails for the notebook's \<open>alpha\<close> at \<open>R = 1\<close>: the third summand of the code is
  \<open>w * w / 3\<close>, not the constant \<open>1 / 9\<close>.
\<close>

theorem S_constant_ninth_counterexample:
  "S alpha 1 \<noteq> Inr (exp (- (alpha * 1)) * (1 + alpha * 1 + (1 / 3) ^ 2))"
proof -
  have "S alpha 1 = Inr (exp (- (alpha * 1)) * (1 + alpha * 1 + alpha * 1 * (alpha * 1) / 3))"
    by (rule S_returns) (simp add: alpha_def)
  then show ?thesis
    by (simp add: alpha_def power2_eq_square)
qed

text \<open>
  Claim C3, amended. For \<open>alpha > 0\<close> and \<open>R \<ge> 0\<close>, \<open>S\<close> returns
  \<open>exp (- w) * (1 + w + w^2 / 3)\<close> with \<open>w = alpha * R\<close>.
\<close>

theorem S_formula:
  assumes "0 < a" and "0 \<le> R"
  shows "S a R = Inr (exp (- (a * R)) * (1 + a * R + (a * R) ^ 2 / 3))"
proof -
  have "0 \<le> a * R" using assms by simp
  then show ?thesis by (simp add: S_returns power2_eq_square)
qed

theorem S_formula_witness:
  "0 < alpha \<and> (0::real) \<le> 1 \<and>
   S alpha 1 = Inr (exp (- (alpha * 1)) * (1 + alpha * 1 + (alpha * 1) ^ 2 / 3))"
proof -
  have "0 < alpha" by (simp add: alpha_def)
  then show ?thesis using S_formula [of alpha 1] by simp
qed

text \<open>Claim C4. For every \<open>alpha > 0\<close>, \<open>S\<close> at \<open>R = 0\<close> returns exactly 1.\<close>

theorem S_at_zero:
  assumes "0 < a"
  shows "S a 0 = Inr 1"
  by (simp add: S_returns)

theorem S_at_zero_witness: "0 < alpha \<and> S alpha 0 = Inr 1"
proof -
  have "0 < alpha" by (simp add: alpha_def)
  then show ?thesis using S_at_zero [of alpha] by simp
qed

subsection \<open>The overlap formula in exact arithmetic\<close>

lemma overlap_le_one:
  fixes w :: real
  assumes "0 \<le> w"
  shows "exp (- w) * (1 + w + w * w / 3) \<le> 1"
proof -
  have "1 + w + w * w / 3 \<le> 1 + w + w\<^sup>2 / 2"
    by (simp add: power2_eq_square)
  also have "\<dots> \<le> exp w"
    using assms by (rule exp_lower_Taylor_quadratic)
  finally have "exp (- w) * (1 + w + w * w / 3) \<le> exp (- w) * exp w"
    by (intro mult_left_mono) simp_all
  then show ?thesis
    by (simp add: exp_minus)
qed

lemma overlap_poly_step:
  fixes u d :: real
  assumes "0 \<le> u" and "0 \<le> d"
  shows "1 + (u + d) + (u + d) * (u + d) / 3 \<le> (1 + d + d\<^sup>2 / 2) * (1 + u + u * u / 3)"
proof -
  have "(1 + d + d\<^sup>2 / 2) * (1 + u + u * u / 3) - (1 + (u + d) + (u + d) * (u + d) / 3)
      = d * (u / 3 + u * u / 3) + d * d * (1 / 6 + u / 2 + u * u / 6)"
    by (simp add: power2_eq_square field_simps)
  moreover have "0 \<le> d * (u / 3 + u * u / 3) + d * d * (1 / 6 + u / 2 + u * u / 6)"
    using assms by (intro add_nonneg_nonneg mult_nonneg_nonneg) simp_all
  ultimately show ?thesis by linarith
qed

lemma overlap_antimono:
  fixes u v :: real
  assumes "0 \<le> u" and "u \<le> v"
  shows "exp (- v) * (1 + v + v * v / 3) \<le> exp (- u) * (1 + u + u * u / 3)"
proof -
  define d where "d = v - u"
  have d: "0 \<le> d" using assms by (simp add: d_def)
  have v: "v = u + d" by (simp add: d_def)
  have pos: "0 \<le> 1 + u + u * u / 3" using assms by (intro add_nonneg_nonneg) simp_all
  have "1 + (u + d) + (u + d) * (u + d) / 3 \<le> (1 + d + d\<^sup>2 / 2) * (1 + u + u * u / 3)"
    using assms(1) d by (rule overlap_poly_step)
  also have "\<dots> \<le> exp d * (1 + u + u * u / 3)"
    using exp_lower_Taylor_quadratic [OF d] pos by (rule mult_right_mono)
  finally have "exp (- (u + d)) * (1 + (u + d) + (u + d) * (u + d) / 3)
      \<le> exp (- (u + d)) * (exp d * (1 + u + u * u / 3))"
    by (intro mult_left_mono) simp_all
  also have "\<dots> = exp (- u) * (1 + u + u * u / 3)"
    by (simp add: mult.assoc [symmetric] mult_exp_exp)
  finally show ?thesis
    unfolding v .
qed

text \<open>
  With real numbers in place of doubles, the value \<open>S\<close> returns for \<open>alpha > 0\<close> and
  \<open>R \<ge> 0\<close> lies in \<open>(0, 1]\<close> and does not increase with \<open>R\<close>. This is a fact about the
  formula. The notebook evaluates it on doubles, where the result is rounded and, for a
  large \<open>alpha * R\<close>, underflows to \<open>0.0\<close>; rounding and underflow are not part of this
  embedding, so the lemma says nothing about the doubles \<open>S\<close> returns.
\<close>

lemma S_exact_range_and_monotone:
  assumes "0 < a" and "0 \<le> R1" and "R1 \<le> R2"
  shows "\<exists>s1 s2. S a R1 = Inr s1 \<and> S a R2 = Inr s2 \<and> 0 < s1 \<and> s1 \<le> 1 \<and> s2 \<le> s1"
proof -
  have u: "0 \<le> a * R1" and uv: "a * R1 \<le> a * R2" using assms by simp_all
  then have v: "0 \<le> a * R2" by linarith
  show ?thesis
    using overlap_le_one [OF u] overlap_antimono [OF u uv] overlap_poly_pos [of "a * R1"]
    by (simp add: S_returns [OF u] S_returns [OF v])
qed

subsection \<open>Reflection symmetry\<close>

text \<open>
  Claim C6. For \<open>alpha > 0\<close> and \<open>R \<ge> 0\<close>, reflecting every x coordinate, \<open>x \<rightarrow> - x\<close>,
  leaves both arrays unchanged: the entry for the point \<open>(- x, y)\<close> is the entry for
  \<open>(x, y)\<close>, in the 2D grid and in the 1D cut.
\<close>

theorem density_reflection_symmetric:
  assumes "0 < a" and "0 \<le> R"
  shows "evaluate2D a R (map uminus x) y = evaluate2D a R x y
       \<and> evaluate1D a R (map uminus x) = evaluate1D a R x"
proof -
  have sq: "(- v - c)\<^sup>2 = (v + c)\<^sup>2" "(- v + c)\<^sup>2 = (v - c)\<^sup>2" for v c :: real
    by (simp_all add: power2_eq_square algebra_simps)
  have ab: "\<bar>- v - c\<bar> = \<bar>v + c\<bar>" "\<bar>- v + c\<bar> = \<bar>v - c\<bar>" for v c :: real
    by simp_all
  have "0 \<le> a * R" using assms by simp
  then obtain s where s: "S a R = Inr s" using S_returns by blast
  show ?thesis
    by (simp add: evaluate2D_eq [OF s] evaluate1D_eq comp_def sq ab add.commute
          power2_commute [of "R / 2"] abs_minus_commute [of "R / 2"])
qed

theorem density_reflection_symmetric_witness:
  "(0::real) < 1 \<and> (0::real) \<le> 2 \<and>
   evaluate2D 1 2 (map uminus [1, 3]) [0, 5] = evaluate2D 1 2 [1, 3] [0, 5] \<and>
   evaluate1D 1 2 (map uminus [1, 3]) = evaluate1D 1 2 [1, 3]"
  using density_reflection_symmetric [of 1 2 "[1, 3]" "[0, 5]"] by simp

subsection \<open>Parameter validation\<close>




subsection \<open>Collapsed nuclei\<close>

text \<open>
  Claim C8, as stated: at \<open>R = 0\<close> both computations give \<open>(2 * exp (- alpha * \<bar>x\<bar>))^2\<close> along
  \<open>y = 0\<close>. It fails for the 2D computation at the origin with the notebook's \<open>alpha\<close>: the
  entry carries the factor \<open>alpha^3 / (2 * pi)\<close>.
\<close>

theorem evaluate2D_collapsed_counterexample:
  "evaluate2D alpha 0 [0] [0] \<noteq> Inr [[(2 * exp (- alpha * \<bar>0\<bar>)) ^ 2]]"
proof -
  have s: "S alpha 0 = Inr 1" by (simp add: S_returns)
  have "alpha ^ 3 < 2 * 2" by (simp add: alpha_def power3_eq_cube)
  also have "\<dots> \<le> 2 * pi" using pi_ge_two by simp
  finally have "alpha ^ 3 \<noteq> 2 * pi" by simp
  then have "alpha ^ 3 / (pi * (1 + 1)) * (1 + 1) ^ 2 \<noteq> 2 ^ 2"
    by (simp add: field_simps)
  then show ?thesis
    by (simp add: evaluate2D_eq [OF s])
qed

text \<open>
  Claim C8, amended. At \<open>R = 0\<close> the 1D computation returns \<open>(2 * exp (- alpha * \<bar>x\<bar>))^2\<close>
  for each \<open>x\<close>, and the 2D computation returns, in every row with \<open>y = 0\<close>,
  \<open>alpha^3 / (2 * pi) * (2 * exp (- alpha * \<bar>x\<bar>))^2\<close> for each \<open>x\<close>.
\<close>

theorem collapsed_nuclei:
  "evaluate1D a 0 x = Inr (map (\<lambda>v. (2 * exp (- a * \<bar>v\<bar>)) ^ 2) x)
   \<and> (\<exists>Z. evaluate2D a 0 x y = Inr Z \<and> length Z = length y
        \<and> (\<forall>i<length y. y ! i = 0 \<longrightarrow>
              Z ! i = map (\<lambda>v. (a ^ 3 / (2 * pi)) * (2 * exp (- a * \<bar>v\<bar>)) ^ 2) x))"
proof -
  have s: "S a 0 = Inr 1" by (simp add: S_returns)
  show ?thesis
    by (simp add: evaluate1D_eq evaluate2D_eq [OF s] mult.commute)
qed

theorem collapsed_nuclei_witness:
  "evaluate1D 1 0 [3] = Inr [(2 * exp (- 1 * \<bar>3\<bar>)) ^ 2]
   \<and> (\<exists>Z. evaluate2D 1 0 [3] [0] = Inr Z \<and> [0::real] ! 0 = 0
        \<and> Z ! 0 = [(1 ^ 3 / (2 * pi)) * (2 * exp (- 1 * \<bar>3\<bar>)) ^ 2])"
  using collapsed_nuclei [of 1 "[3]" "[0]"] by auto

subsection \<open>The 2D density along the x axis and the 1D cut\<close>

text \<open>
  Claim C10. For \<open>alpha > 0\<close> and \<open>R \<ge> 0\<close>, \<open>S\<close> returns a value \<open>s\<close>, and every row of the
  2D array with \<open>y = 0\<close> is the 1D array multiplied by the positive constant
  \<open>alpha^3 / (pi * (1 + s))\<close>.
\<close>

theorem cut_of_2D_is_scaled_1D:
  assumes "0 < a" and "0 \<le> R"
  shows "\<exists>s. S a R = Inr s \<and> 0 < a ^ 3 / (pi * (1 + s))
   \<and> (\<exists>Z D. evaluate2D a R x y = Inr Z \<and> evaluate1D a R x = Inr D
        \<and> length Z = length y \<and> length D = length x
        \<and> (\<forall>i<length y. y ! i = 0 \<longrightarrow>
              Z ! i = map (\<lambda>d. (a ^ 3 / (pi * (1 + s))) * d) D))"
proof -
  have "0 \<le> a * R" using assms by simp
  then obtain s where s: "S a R = Inr s" using S_returns by blast
  have "0 < a ^ 3 / (pi * (1 + s))"
    using assms S_value_pos [OF s] by (simp add: add_pos_pos)
  then show ?thesis
    using s by (simp add: evaluate1D_eq evaluate2D_eq [OF s] comp_def add.commute)
qed

theorem cut_of_2D_is_scaled_1D_witness:
  "(0::real) < 1 \<and> (0::real) \<le> 2
   \<and> (\<exists>s. S 1 2 = Inr s \<and> 0 < 1 ^ 3 / (pi * (1 + s))
     \<and> (\<exists>Z D. evaluate2D 1 2 [3, 4] [- 1, 0, 1] = Inr Z \<and> evaluate1D 1 2 [3, 4] = Inr D
          \<and> [- 1, 0, 1 :: real] ! 1 = 0 \<and> Z ! 1 = map (\<lambda>d. (1 ^ 3 / (pi * (1 + s))) * d) D))"
  using cut_of_2D_is_scaled_1D [of 1 2 "[3, 4]" "[- 1, 0, 1]"] by auto

subsection \<open>The cut at \<open>R = 1.4\<close> on the notebook's grid\<close>

lemma linspace_length: "length (linspace s e n) = n"
  by (simp add: linspace_def)

lemma linspace_sample: "k < 100 \<Longrightarrow> linspace (- 2) 2 100 ! k = sample k"
  by (simp add: linspace_def sample_def)

lemma evaluate1D_amplitude:
  "evaluate1D a R x = Inr (map (\<lambda>v. (amplitude_1d a R v) ^ 2) x)"
  by (simp add: evaluate1D_eq amplitude_1d_def)

lemma amplitude_1d_pos: "0 < amplitude_1d a R v"
  by (simp add: amplitude_1d_def add_pos_pos)

lemma amplitude_1d_even: "amplitude_1d a R (- v) = amplitude_1d a R v"
proof -
  have "\<bar>- v - R / 2\<bar> = \<bar>v + R / 2\<bar>" and "\<bar>- v + R / 2\<bar> = \<bar>v - R / 2\<bar>"
    by simp_all
  then show ?thesis
    by (simp add: amplitude_1d_def)
qed

lemma amplitude_1d_left_increasing:
  assumes "0 < a" and "0 \<le> R" and "u < v" and "v \<le> - (R / 2)"
  shows "amplitude_1d a R u < amplitude_1d a R v"
proof -
  have au: "a * u < a * v" using assms by simp
  have abs_u: "\<bar>u - R / 2\<bar> = R / 2 - u" "\<bar>u + R / 2\<bar> = - (u + R / 2)"
    using assms by simp_all
  have abs_v: "\<bar>v - R / 2\<bar> = R / 2 - v" "\<bar>v + R / 2\<bar> = - (v + R / 2)"
    using assms by simp_all
  have "exp (- a * (R / 2 - u)) < exp (- a * (R / 2 - v))"
    using au by (simp add: algebra_simps)
  moreover have "exp (- a * (- (u + R / 2))) < exp (- a * (- (v + R / 2)))"
    using au by (simp add: algebra_simps)
  ultimately show ?thesis
    unfolding amplitude_1d_def abs_u abs_v by (rule add_strict_mono)
qed

lemma amplitude_1d_right_decreasing:
  assumes "0 < a" and "0 \<le> R" and "R / 2 \<le> u" and "u < v"
  shows "amplitude_1d a R v < amplitude_1d a R u"
  using amplitude_1d_left_increasing [of a R "- v" "- u"] assms
  by (simp add: amplitude_1d_even)

lemma amplitude_1d_between:
  assumes "0 \<le> R" and "- (R / 2) \<le> v" and "v \<le> R / 2"
  shows "amplitude_1d a R v = 2 * exp (- a * (R / 2)) * cosh (a * v)"
proof -
  have abs_v: "\<bar>v - R / 2\<bar> = R / 2 - v" "\<bar>v + R / 2\<bar> = v + R / 2"
    using assms by simp_all
  have "exp (- a * (R / 2 - v)) = exp (- a * (R / 2)) * exp (a * v)"
    by (simp add: mult_exp_exp algebra_simps)
  moreover have "exp (- a * (v + R / 2)) = exp (- a * (R / 2)) * exp (- (a * v))"
    by (simp add: mult_exp_exp algebra_simps)
  ultimately show ?thesis
    unfolding amplitude_1d_def abs_v by (simp add: cosh_field_def algebra_simps)
qed

lemma amplitude_1d_inner_decreasing:
  assumes "0 < a" and "0 \<le> R" and "- (R / 2) \<le> u" and "u < v" and "v \<le> 0"
  shows "amplitude_1d a R v < amplitude_1d a R u"
proof -
  have "a * u < a * v" and "a * v \<le> 0" and "a * u \<le> 0"
    using assms by (simp_all add: mult_le_0_iff)
  then have "cosh (a * v) < cosh (a * u)"
    by (simp add: cosh_real_nonpos_less_iff)
  then show ?thesis
    using assms by (simp add: amplitude_1d_between)
qed

lemma amplitude_1d_inner_increasing:
  assumes "0 < a" and "0 \<le> R" and "0 \<le> u" and "u < v" and "v \<le> R / 2"
  shows "amplitude_1d a R u < amplitude_1d a R v"
  using amplitude_1d_inner_decreasing [of a R "- v" "- u"] assms
  by (simp add: amplitude_1d_even)


lemma exp_gap:
  "exp (- (31 / 750)) + exp (- (1271 / 750)) < exp (- (217 / 24750)) + exp (- (43183 / 24750 :: real))"
proof -
  define C :: real where "C = exp (- (31 / 750))"
  define E :: real where "E = exp (- (1271 / 750))"
  have A: "exp (- (217 / 24750)) = C * exp (403 / 12375)"
    by (simp add: C_def mult_exp_exp)
  have B: "exp (- (43183 / 24750)) = E * exp (- (124 / 2475))"
    by (simp add: E_def mult_exp_exp)
  have C_lower: "719 / 750 \<le> C"
    using exp_ge_add_one_self [of "- (31 / 750)"] by (simp add: C_def)
  have up: "1 + 403 / 12375 \<le> exp (403 / 12375 :: real)"
    by (rule exp_ge_add_one_self)
  have "2021 / 750 \<le> exp (1271 / 750 :: real)"
    using exp_ge_add_one_self [of "1271 / 750"] by simp
  then have "inverse (exp (1271 / 750 :: real)) \<le> inverse (2021 / 750)"
    by (intro le_imp_inverse_le) simp_all
  then have E_upper: "E \<le> 750 / 2021"
    by (simp add: E_def exp_minus)
  have E_pos: "0 < E" by (simp add: E_def)
  have down: "2351 / 2475 \<le> exp (- (124 / 2475) :: real)"
    using exp_ge_add_one_self [of "- (124 / 2475)"] by simp
  have "C * (1 + 403 / 12375) \<le> C * exp (403 / 12375)"
    using up by (intro mult_left_mono) (simp_all add: C_def)
  then have gain: "C + C * (403 / 12375) \<le> exp (- (217 / 24750))"
    by (simp add: A algebra_simps)
  have "(719 / 750) * (403 / 12375) \<le> C * (403 / 12375)"
    using C_lower by (intro mult_right_mono) simp_all
  with gain have gain': "C + (719 / 750) * (403 / 12375) \<le> exp (- (217 / 24750))"
    by linarith
  have "E * (2351 / 2475) \<le> E * exp (- (124 / 2475))"
    using down E_pos by (intro mult_left_mono) simp_all
  then have loss: "E - E * (124 / 2475) \<le> exp (- (43183 / 24750))"
    by (simp add: B algebra_simps)
  have "E * (124 / 2475) \<le> (750 / 2021) * (124 / 2475)"
    using E_upper by (intro mult_right_mono) simp_all
  with loss have loss': "E - (750 / 2021) * (124 / 2475) \<le> exp (- (43183 / 24750))"
    by linarith
  have "(750 / 2021) * (124 / 2475) < (719 / 750) * (403 / 12375 :: real)"
    by simp
  with gain' loss' show ?thesis
    unfolding C_def [symmetric] E_def [symmetric] by linarith
qed

lemma amplitude_sample_32_33:
  "amplitude_1d alpha (14 / 10) (sample 33) < amplitude_1d alpha (14 / 10) (sample 32)"
proof -
  have "amplitude_1d alpha (14 / 10) (sample 33) = exp (- (31 / 750)) + exp (- (1271 / 750))"
    by (simp add: amplitude_1d_def sample_def alpha_def)
  moreover have "amplitude_1d alpha (14 / 10) (sample 32)
      = exp (- (217 / 24750)) + exp (- (43183 / 24750))"
    by (simp add: amplitude_1d_def sample_def alpha_def add.commute)
  ultimately show ?thesis
    using exp_gap by simp
qed

lemma sample_reflect: "k \<le> 99 \<Longrightarrow> sample (99 - k) = - sample k"
  by (simp add: sample_def of_nat_diff field_simps)

lemma cut_reflect: "k \<le> 99 \<Longrightarrow> cut (99 - k) = cut k"
  by (simp add: cut_def sample_reflect amplitude_1d_even)

lemma cut_mono:
  "amplitude_1d alpha (14 / 10) (sample i) < amplitude_1d alpha (14 / 10) (sample j) \<Longrightarrow> cut i < cut j"
  unfolding cut_def
  by (rule power_strict_mono) (simp_all add: amplitude_1d_pos less_imp_le)

lemma sample_less: "i < j \<Longrightarrow> sample i < sample j"
  by (simp add: sample_def)

lemma cut_rising_left:
  assumes "i < j" and "j \<le> 32"
  shows "cut i < cut j"
proof -
  have "real j \<le> 32" using assms by simp
  then have "sample j \<le> - ((14 / 10) / 2)"
    by (simp add: sample_def)
  then show ?thesis
    using assms by (intro cut_mono amplitude_1d_left_increasing sample_less) (simp_all add: alpha_def)
qed

lemma cut_falling_inner:
  assumes "33 \<le> i" and "i < j" and "j \<le> 49"
  shows "cut j < cut i"
proof -
  have "33 \<le> real i" and "real j \<le> 49" using assms by simp_all
  then have "- ((14 / 10) / 2) \<le> sample i" and "sample j \<le> 0"
    by (simp_all add: sample_def)
  then show ?thesis
    using assms by (intro cut_mono amplitude_1d_inner_decreasing sample_less) (simp_all add: alpha_def)
qed

lemma cut_peak_left: "cut 33 < cut 32"
  by (rule cut_mono) (rule amplitude_sample_32_33)


lemma cut_up1: "k < 32 \<Longrightarrow> cut k < cut (Suc k)"
  by (rule cut_rising_left) simp_all

lemma cut_dn1:
  assumes "32 \<le> k" and "k < 49"
  shows "cut (Suc k) < cut k"
proof (cases "k = 32")
  case True
  have "Suc 32 = 33" by simp
  with True show ?thesis using cut_peak_left by simp
next
  case False
  with assms have "33 \<le> k" and "k < Suc k" and "Suc k \<le> 49" by simp_all
  then show ?thesis by (rule cut_falling_inner)
qed

lemma cut_flat: "cut 49 = cut 50"
proof -
  have "cut (99 - 49) = cut 49" by (rule cut_reflect) simp
  moreover have "(99::nat) - 49 = 50" by simp
  ultimately show ?thesis by (simp only:)
qed

lemma cut_up2:
  assumes "50 \<le> k" and "k < 67"
  shows "cut k < cut (Suc k)"
proof -
  define j where "j = 98 - k"
  have j: "32 \<le> j" "j < 49" and idx: "Suc j = 99 - k" "j = 99 - Suc k"
    using assms by (simp_all add: j_def)
  have "cut (Suc j) < cut j" using j by (rule cut_dn1)
  moreover have "cut (99 - k) = cut k" using assms by (intro cut_reflect) simp
  moreover have "cut (99 - Suc k) = cut (Suc k)" using assms by (intro cut_reflect) simp
  ultimately show ?thesis by (simp only: idx [symmetric])
qed

lemma cut_dn2:
  assumes "67 \<le> k" and "k < 99"
  shows "cut (Suc k) < cut k"
proof -
  define j where "j = 98 - k"
  have j: "j < 32" and idx: "Suc j = 99 - k" "j = 99 - Suc k"
    using assms by (simp_all add: j_def)
  have "cut j < cut (Suc j)" using j by (rule cut_up1)
  moreover have "cut (99 - k) = cut k" using assms by (intro cut_reflect) simp
  moreover have "cut (99 - Suc k) = cut (Suc k)" using assms by (intro cut_reflect) simp
  ultimately show ?thesis by (simp only: idx [symmetric])
qed

lemma cut_valley:
  shows "cut 49 < cut 32" and "cut 50 < cut 32" and "cut 49 < cut 67" and "cut 50 < cut 67"
proof -
  have "cut 49 < cut 33" by (rule cut_falling_inner) simp_all
  also have "cut 33 < cut 32" by (rule cut_peak_left)
  finally show a: "cut 49 < cut 32" .
  then show b: "cut 50 < cut 32" by (simp only: cut_flat)
  have "cut (99 - 67) = cut 67" by (rule cut_reflect) simp
  moreover have "(99::nat) - 67 = 32" by simp
  ultimately have "cut 32 = cut 67" by (simp only:)
  with a b show "cut 49 < cut 67" and "cut 50 < cut 67" by (simp_all only:)
qed

lemma nearest_left:
  assumes "k < 100"
  shows "\<bar>sample 32 - (- (7 / 10))\<bar> \<le> \<bar>sample k - (- (7 / 10))\<bar>"
proof -
  have lhs: "\<bar>sample 32 - (- (7 / 10))\<bar> = 7 / 990"
    by (simp add: sample_def)
  consider "k \<le> 31" | "k = 32" | "33 \<le> k" by linarith
  then show ?thesis
  proof cases
    case 1
    then have "real k \<le> 31" by simp
    then have "sample k - (- (7 / 10)) \<le> - (7 / 990)" by (simp add: sample_def)
    then show ?thesis unfolding lhs by linarith
  next
    case 2
    then show ?thesis by simp
  next
    case 3
    then have "33 \<le> real k" by simp
    then have "7 / 990 \<le> sample k - (- (7 / 10))" by (simp add: sample_def)
    then show ?thesis unfolding lhs by linarith
  qed
qed

lemma nearest_right:
  assumes "k < 100"
  shows "\<bar>sample 67 - 7 / 10\<bar> \<le> \<bar>sample k - 7 / 10\<bar>"
proof -
  have lhs: "\<bar>sample 67 - 7 / 10\<bar> = 7 / 990"
    by (simp add: sample_def)
  consider "k \<le> 66" | "k = 67" | "68 \<le> k" by linarith
  then show ?thesis
  proof cases
    case 1
    then have "real k \<le> 66" by simp
    then have "sample k - 7 / 10 \<le> - (7 / 990)" by (simp add: sample_def)
    then show ?thesis unfolding lhs by linarith
  next
    case 2
    then show ?thesis by simp
  next
    case 3
    then have "68 \<le> real k" by simp
    then have "7 / 990 \<le> sample k - 7 / 10" by (simp add: sample_def)
    then show ?thesis unfolding lhs by linarith
  qed
qed

lemma nearest_zero:
  assumes "k < 100"
  shows "\<bar>sample 49\<bar> \<le> \<bar>sample k\<bar>" and "\<bar>sample 50\<bar> \<le> \<bar>sample k\<bar>"
proof -
  have lhs: "\<bar>sample 49\<bar> = 2 / 99" "\<bar>sample 50\<bar> = 2 / 99"
    by (simp_all add: sample_def)
  have "2 / 99 \<le> \<bar>sample k\<bar>"
  proof (cases "k \<le> 49")
    case True
    then have "real k \<le> 49" by simp
    then have "sample k \<le> - (2 / 99)" by (simp add: sample_def)
    then show ?thesis by linarith
  next
    case False
    then have "50 \<le> real k" by simp
    then have "2 / 99 \<le> sample k" by (simp add: sample_def)
    then show ?thesis by linarith
  qed
  then show "\<bar>sample 49\<bar> \<le> \<bar>sample k\<bar>" and "\<bar>sample 50\<bar> \<le> \<bar>sample k\<bar>"
    unfolding lhs by simp_all
qed

lemma within_one_step:
  "\<bar>sample 32 - (- (7 / 10))\<bar> < 4 / 99" "\<bar>sample 67 - 7 / 10\<bar> < 4 / 99"
  by (simp_all add: sample_def)

lemma cut_local_max:
  assumes "k + 1 < 100"
  shows "(cut k \<le> cut (Suc k) \<and> cut (Suc (Suc k)) \<le> cut (Suc k)) \<longleftrightarrow> Suc k = 32 \<or> Suc k = 67"
proof -
  consider "Suc k < 32" | "Suc k = 32" | "32 < Suc k" "Suc k \<le> 49" | "Suc k = 50"
    | "50 < Suc k" "Suc k < 67" | "Suc k = 67" | "67 < Suc k"
    by linarith
  then show ?thesis
  proof cases
    case 1
    then show ?thesis using cut_up1 [of "Suc k"] by simp
  next
    case 2
    then have k: "k = 31" by simp
    have "cut 31 < cut (Suc 31)" by (rule cut_up1) simp
    moreover have "cut (Suc 32) < cut 32" by (rule cut_dn1) simp_all
    ultimately show ?thesis by (simp add: k)
  next
    case 3
    then show ?thesis using cut_dn1 [of k] by simp
  next
    case 4
    then have k: "k = 49" by simp
    have "cut 50 < cut (Suc 50)" by (rule cut_up2) simp_all
    then show ?thesis by (simp add: k)
  next
    case 5
    then show ?thesis using cut_up2 [of "Suc k"] by simp
  next
    case 6
    then have k: "k = 66" by simp
    have "cut 66 < cut (Suc 66)" by (rule cut_up2) simp_all
    moreover have "cut (Suc 67) < cut 67" by (rule cut_dn2) simp_all
    ultimately show ?thesis by (simp add: k)
  next
    case 7
    then show ?thesis using cut_dn2 [of k] assms by simp
  qed
qed

lemma evaluate1D_cut:
  "\<exists>D. evaluate1D alpha (14 / 10) (linspace (- 2) 2 100) = Inr D \<and> length D = 100
     \<and> (\<forall>k<100. D ! k = cut k)"
  by (simp add: evaluate1D_amplitude linspace_length linspace_sample cut_def)

lemma plot_func_cut:
  assumes "evaluate1D alpha (14 / 10) (linspace (- 2) 2 100) = Inr D"
  shows "\<exists>Z. plot_func (14 / 10) = Inr (Z, D)"
proof -
  have "0 \<le> alpha * (14 / 10)" by (simp add: alpha_def)
  then obtain s where s: "S alpha (14 / 10) = Inr s" using S_returns by blast
  obtain Z where
    Z: "evaluate2D alpha (14 / 10) (linspace (- 2) 2 100) (linspace (- 2) 2 100) = Inr Z"
    using evaluate2D_eq [OF s] by blast
  have "plot_func (14 / 10) = Inr (Z, D)"
    unfolding plot_func_def Let_def by (simp only: Z assms sum.case)
  then show ?thesis by blast
qed

text \<open>
  Claim C9. For \<open>alpha = 1.24\<close>, \<open>R = 1.4\<close> and \<open>x = linspace (-2) 2 100\<close> the 1D computation
  returns (it is the array \<open>plot_func 1.4\<close> draws) a sequence of 100 values with two lobes:
  its local maxima are exactly the samples 32 and 67, which are the samples closest to
  \<open>- 0.7\<close> and \<open>0.7\<close> and lie within one grid step of them; the ends are not maxima. The
  samples nearest 0 are 49 and 50, at the same distance; each is a local minimum, with a
  value strictly below both maxima.
\<close>

theorem two_lobed_cut:
  "\<exists>D. evaluate1D alpha (14 / 10) (linspace (- 2) 2 100) = Inr D
     \<and> (\<exists>Z. plot_func (14 / 10) = Inr (Z, D))
     \<and> length D = 100
     \<and> (\<forall>k<100. local_max D k \<longleftrightarrow> k = 32 \<or> k = 67)
     \<and> D ! 0 < D ! 1 \<and> D ! 99 < D ! 98
     \<and> (\<forall>k<100. \<bar>linspace (- 2) 2 100 ! 32 - (- (7 / 10))\<bar>
                   \<le> \<bar>linspace (- 2) 2 100 ! k - (- (7 / 10))\<bar>)
     \<and> (\<forall>k<100. \<bar>linspace (- 2) 2 100 ! 67 - 7 / 10\<bar>
                   \<le> \<bar>linspace (- 2) 2 100 ! k - 7 / 10\<bar>)
     \<and> \<bar>linspace (- 2) 2 100 ! 32 - (- (7 / 10))\<bar> < linspace (- 2) 2 100 ! 1 - linspace (- 2) 2 100 ! 0
     \<and> \<bar>linspace (- 2) 2 100 ! 67 - 7 / 10\<bar> < linspace (- 2) 2 100 ! 1 - linspace (- 2) 2 100 ! 0
     \<and> (\<forall>k<100. \<bar>linspace (- 2) 2 100 ! 49\<bar> \<le> \<bar>linspace (- 2) 2 100 ! k\<bar>)
     \<and> (\<forall>k<100. \<bar>linspace (- 2) 2 100 ! 50\<bar> \<le> \<bar>linspace (- 2) 2 100 ! k\<bar>)
     \<and> local_min D 49 \<and> local_min D 50
     \<and> D ! 49 < D ! 32 \<and> D ! 49 < D ! 67 \<and> D ! 50 < D ! 32 \<and> D ! 50 < D ! 67"
proof -
  obtain D where ev: "evaluate1D alpha (14 / 10) (linspace (- 2) 2 100) = Inr D"
    and len: "length D = 100" and nth: "\<And>k. k < 100 \<Longrightarrow> D ! k = cut k"
    using evaluate1D_cut by blast
  have pf: "\<exists>Z. plot_func (14 / 10) = Inr (Z, D)"
    using ev by (rule plot_func_cut)
  have "local_max D k \<longleftrightarrow> k = 32 \<or> k = 67" if "k < 100" for k
  proof (cases k)
    case 0
    then show ?thesis by (simp add: local_max_def)
  next
    case (Suc j)
    show ?thesis
    proof (cases "k + 1 < 100")
      case True
      then have "j + 1 < 100" using Suc by simp
      then have "(cut j \<le> cut (Suc j) \<and> cut (Suc (Suc j)) \<le> cut (Suc j))
          \<longleftrightarrow> Suc j = 32 \<or> Suc j = 67"
        by (rule cut_local_max)
      then show ?thesis
        using True Suc by (simp add: local_max_def len nth)
    next
      case False
      then have "k = 99" using that by simp
      then show ?thesis by (simp add: local_max_def len)
    qed
  qed
  then have maxima: "\<forall>k<100. local_max D k \<longleftrightarrow> k = 32 \<or> k = 67"
    by blast
  have end0: "D ! 0 < D ! 1" and end99: "D ! 99 < D ! 98"
    using cut_up1 [of 0] cut_dn2 [of 98] by (simp_all add: nth)
  have near_l: "\<forall>k<100. \<bar>linspace (- 2) 2 100 ! 32 - (- (7 / 10))\<bar>
      \<le> \<bar>linspace (- 2) 2 100 ! k - (- (7 / 10))\<bar>"
    using nearest_left by (simp add: linspace_sample)
  have near_r: "\<forall>k<100. \<bar>linspace (- 2) 2 100 ! 67 - 7 / 10\<bar>
      \<le> \<bar>linspace (- 2) 2 100 ! k - 7 / 10\<bar>"
    using nearest_right by (simp add: linspace_sample)
  have step: "linspace (- 2) 2 100 ! 1 - linspace (- 2) 2 100 ! 0 = 4 / 99"
    by (simp add: linspace_sample sample_def)
  have in_l: "\<bar>linspace (- 2) 2 100 ! 32 - (- (7 / 10))\<bar>
      < linspace (- 2) 2 100 ! 1 - linspace (- 2) 2 100 ! 0"
    unfolding step using within_one_step(1) by (simp add: linspace_sample)
  have in_r: "\<bar>linspace (- 2) 2 100 ! 67 - 7 / 10\<bar>
      < linspace (- 2) 2 100 ! 1 - linspace (- 2) 2 100 ! 0"
    unfolding step using within_one_step(2) by (simp add: linspace_sample)
  have zero49: "\<forall>k<100. \<bar>linspace (- 2) 2 100 ! 49\<bar> \<le> \<bar>linspace (- 2) 2 100 ! k\<bar>"
    using nearest_zero(1) by (simp add: linspace_sample)
  have zero50: "\<forall>k<100. \<bar>linspace (- 2) 2 100 ! 50\<bar> \<le> \<bar>linspace (- 2) 2 100 ! k\<bar>"
    using nearest_zero(2) by (simp add: linspace_sample)
  have "cut 49 < cut 48" using cut_dn1 [of 48] by simp
  moreover have "cut 50 < cut 51" using cut_up2 [of 50] by simp
  ultimately have min49: "local_min D 49" and min50: "local_min D 50"
    using cut_flat by (simp_all add: local_min_def len nth)
  have v1: "D ! 49 < D ! 32" and v2: "D ! 49 < D ! 67"
    and v3: "D ! 50 < D ! 32" and v4: "D ! 50 < D ! 67"
    using cut_valley by (simp_all add: nth)
  show ?thesis
    by (rule exI [of _ D]) (intro conjI; fact)
qed

theorem two_lobed_cut_witness:
  "\<exists>D. evaluate1D alpha (14 / 10) (linspace (- 2) 2 100) = Inr D
     \<and> local_max D 32 \<and> local_max D 67 \<and> \<not> local_max D 49 \<and> \<not> local_max D 98
     \<and> \<bar>linspace (- 2) 2 100 ! 32 - (- (7 / 10))\<bar> \<le> \<bar>linspace (- 2) 2 100 ! 33 - (- (7 / 10))\<bar>
     \<and> \<bar>linspace (- 2) 2 100 ! 67 - 7 / 10\<bar> \<le> \<bar>linspace (- 2) 2 100 ! 66 - 7 / 10\<bar>
     \<and> \<bar>linspace (- 2) 2 100 ! 49\<bar> \<le> \<bar>linspace (- 2) 2 100 ! 50\<bar>
     \<and> \<bar>linspace (- 2) 2 100 ! 50\<bar> \<le> \<bar>linspace (- 2) 2 100 ! 49\<bar>"
proof -
  obtain D where ev: "evaluate1D alpha (14 / 10) (linspace (- 2) 2 100) = Inr D"
    and maxima: "\<forall>k<100. local_max D k \<longleftrightarrow> k = 32 \<or> k = 67"
    and near_l: "\<forall>k<100. \<bar>linspace (- 2) 2 100 ! 32 - (- (7 / 10))\<bar>
                   \<le> \<bar>linspace (- 2) 2 100 ! k - (- (7 / 10))\<bar>"
    and near_r: "\<forall>k<100. \<bar>linspace (- 2) 2 100 ! 67 - 7 / 10\<bar>
                   \<le> \<bar>linspace (- 2) 2 100 ! k - 7 / 10\<bar>"
    and zero49: "\<forall>k<100. \<bar>linspace (- 2) 2 100 ! 49\<bar> \<le> \<bar>linspace (- 2) 2 100 ! k\<bar>"
    and zero50: "\<forall>k<100. \<bar>linspace (- 2) 2 100 ! 50\<bar> \<le> \<bar>linspace (- 2) 2 100 ! k\<bar>"
    using two_lobed_cut by blast
  have "local_max D 32" and "local_max D 67" and "\<not> local_max D 49" and "\<not> local_max D 98"
    using maxima by simp_all
  moreover have "\<bar>linspace (- 2) 2 100 ! 32 - (- (7 / 10))\<bar>
      \<le> \<bar>linspace (- 2) 2 100 ! 33 - (- (7 / 10))\<bar>"
    using near_l by simp
  moreover have "\<bar>linspace (- 2) 2 100 ! 67 - 7 / 10\<bar> \<le> \<bar>linspace (- 2) 2 100 ! 66 - 7 / 10\<bar>"
    using near_r by simp
  moreover have "\<bar>linspace (- 2) 2 100 ! 49\<bar> \<le> \<bar>linspace (- 2) 2 100 ! 50\<bar>"
    using zero49 by simp
  moreover have "\<bar>linspace (- 2) 2 100 ! 50\<bar> \<le> \<bar>linspace (- 2) 2 100 ! 49\<bar>"
    using zero50 by simp
  ultimately show ?thesis
    using ev by blast
qed

end
